theory Spec2Isabelle
  imports Complex_Main "HOL-Library.AList"
begin

section \<open>Alpha model of the trade executor: data model\<close>

text \<open>
  The development follows \<^verbatim>\<open>tradeexecutor/strategy/alpha_model.py\<close>.
  The float fields of a signal (signal, weights, dollar amounts) hold the real
  value of a finite float, and arithmetic on them is idealised as real
  arithmetic, except in \<^verbatim>\<open>calculate_weight_diffs\<close>, whose subtractions are
  IEEE 754 binary64 operations with their rounding.
  Python dictionaries are association lists in insertion order with
  \<^const>\<open>AList.update\<close> for \<^verbatim>\<open>d[k] = v\<close>, \<^const>\<open>AList.delete\<close>
  for \<^verbatim>\<open>del d[k]\<close> and \<^const>\<open>map_of\<close> for lookup.  Every \<^verbatim>\<open>assert\<close>
  and \<^verbatim>\<open>raise\<close> of the source is an \<open>Inl\<close> branch of the model.
\<close>

datatype error = AssertionError | NotImplementedError | AttributeError | UpstreamFailure

text \<open>
  Modelled from the spec: the kind of instrument behind a trading pair.  The
  methods \<^verbatim>\<open>is_spot\<close>, \<^verbatim>\<open>is_long\<close> and \<^verbatim>\<open>is_short\<close> of
  \<^verbatim>\<open>TradingPairIdentifier\<close> are called by the alpha model but the identifier
  module does not define them; the spec distinguishes spot, long and short
  instruments.  A fourth kind stands for every other instrument.
\<close>

datatype pair_kind = spot_market | lending_long | lending_short | other_market

record trading_pair =
  internal_id :: int
  kind :: pair_kind

definition is_spot :: "trading_pair \<Rightarrow> bool" where
  "is_spot p = (kind p = spot_market)"

definition is_long :: "trading_pair \<Rightarrow> bool" where
  "is_long p = (kind p = lending_long)"

definition is_short :: "trading_pair \<Rightarrow> bool" where
  "is_short p = (kind p = lending_short)"

text \<open>
  A Python number as it reaches a type test such as \<^verbatim>\<open>type(x) == float\<close>:
  the source tells floats from integers and decimals.
\<close>

datatype number = PyFloat real | PyInt int | PyDecimal real

fun is_float :: "number \<Rightarrow> bool" where
  "is_float (PyFloat x) = True"
| "is_float (PyInt n) = False"
| "is_float (PyDecimal d) = False"

fun num_val :: "number \<Rightarrow> real" where
  "num_val (PyFloat x) = x"
| "num_val (PyInt n) = of_int n"
| "num_val (PyDecimal d) = d"

text \<open>Truthiness of a number, as in \<^verbatim>\<open>if self.leverage:\<close>: zero is false.\<close>

definition truthy :: "number \<Rightarrow> bool" where
  "truthy x = (num_val x \<noteq> 0)"

record trading_pair_signal =
  pair :: trading_pair
  signal :: real
  stop_loss :: "real option"
  take_profit :: "real option"
  trailing_stop_loss :: "real option"
  raw_weight :: real
  normalised_weight :: real
  old_weight :: real
  old_value :: real
  old_pair :: "trading_pair option"
  position_target :: real
  position_adjust_usd :: real
  position_adjust_quantity :: real
  position_id :: "int option"
  position_adjust_ignored :: bool
  profit_before_trades :: real
  profit_before_trades_pct :: real
  synthetic_pair :: "trading_pair option"
  leverage :: "number option"

text \<open>The dataclass constructor with the defaults of the field declarations.\<close>

definition TradingPairSignal ::
  "trading_pair \<Rightarrow> real \<Rightarrow> real option \<Rightarrow> real option \<Rightarrow> real option \<Rightarrow> number option
     \<Rightarrow> trading_pair_signal" where
  "TradingPairSignal p a sl tp tsl lev =
     \<lparr> pair = p, signal = a, stop_loss = sl, take_profit = tp, trailing_stop_loss = tsl,
       raw_weight = 0, normalised_weight = 0, old_weight = 0, old_value = 0,
       old_pair = None, position_target = 0, position_adjust_usd = 0,
       position_adjust_quantity = 0, position_id = None, position_adjust_ignored = False,
       profit_before_trades = 0, profit_before_trades_pct = 0, synthetic_pair = None,
       leverage = lev \<rparr>"

text \<open>\<^verbatim>\<open>TradingPairSignal.__post_init__\<close>: the checks run by the constructor.\<close>

definition post_init :: "trading_pair_signal \<Rightarrow> error + trading_pair_signal" where
  "post_init s =
     (if \<not> is_spot (pair s) then Inl AssertionError
      else case leverage s of
             None \<Rightarrow> Inr s
           | Some l \<Rightarrow>
               if truthy l then
                 (if \<not> is_float l then Inl AssertionError
                  else if \<not> num_val l > 0 then Inl AssertionError
                  else Inr s)
               else Inr s)"

definition is_new :: "trading_pair_signal \<Rightarrow> bool" where
  "is_new s = (old_weight s = 0)"

definition is_closing :: "trading_pair_signal \<Rightarrow> bool" where
  "is_closing s = (normalised_weight s = 0)"

definition is_flipping :: "trading_pair_signal \<Rightarrow> bool" where
  "is_flipping s =
     (if normalised_weight s = 0 then False
      else case old_pair s of
             None \<Rightarrow> False
           | Some op \<Rightarrow>
               if signal s < 0 then is_long op \<or> is_spot op
               else if signal s > 0 then is_short op
               else False)"

text \<open>
  \<^verbatim>\<open>get_flip_label\<close> raises for an old pair that is neither spot nor short;
  the rebalance evaluates it in a log line and in an error message.
\<close>

definition get_flip_label :: "trading_pair_signal \<Rightarrow> error + string" where
  "get_flip_label s =
     (case old_pair s of
        None \<Rightarrow>
          if signal s > 0 then Inr ''none -> spot''
          else if signal s < 0 then Inr ''none -> short''
          else if signal s = 0 then Inr ''spot -> close''
          else Inr ''no flip''
      | Some op \<Rightarrow>
          if is_spot op then
            (if signal s < 0 then Inr ''spot -> short''
             else if signal s = 0 then Inr ''spot -> close''
             else Inr ''no flip'')
          else if is_short op then
            (if signal s > 0 then Inr ''short -> spot''
             else if signal s = 0 then Inr ''short -> close''
             else Inr ''no flip'')
          else Inl AssertionError)"

section \<open>The signal registry\<close>

record alpha_model =
  timestamp :: "int option"
  raw_signals :: "(int \<times> trading_pair_signal) list"
  signals :: "(int \<times> trading_pair_signal) list"
  investable_equity :: "real option"
  close_position_weight_epsilon :: real

text \<open>The dataclass defaults of \<^verbatim>\<open>AlphaModel\<close>.\<close>

definition AlphaModel :: "int option \<Rightarrow> alpha_model" where
  "AlphaModel ts =
     \<lparr> timestamp = ts, raw_signals = [], signals = [], investable_equity = Some 0,
       close_position_weight_epsilon = 5 / 1000 \<rparr>"

text \<open>
  \<^verbatim>\<open>override_stop_loss = False\<close> carries no annotation, so it is a class
  attribute and not a field of the slotted dataclass.
\<close>

definition override_stop_loss :: bool where
  "override_stop_loss = False"

definition set_signal ::
  "alpha_model \<Rightarrow> trading_pair \<Rightarrow> real \<Rightarrow> real option \<Rightarrow> real option \<Rightarrow> real option
     \<Rightarrow> number option \<Rightarrow> error + alpha_model" where
  "set_signal m p alpha sl tp tsl lev =
     (if \<not> is_spot p then Inl AssertionError
      else if alpha < 0 \<and> lev = None then Inl AssertionError
      else if alpha = 0 then
        Inr (m\<lparr>raw_signals := AList.delete (internal_id p) (raw_signals m)\<rparr>)
      else
        (case post_init (TradingPairSignal p alpha sl tp tsl lev) of
           Inl e \<Rightarrow> Inl e
         | Inr s \<Rightarrow> Inr (m\<lparr>raw_signals := AList.update (internal_id p) s (raw_signals m)\<rparr>)))"

text \<open>
  A dictionary comprehension \<^verbatim>\<open>{key(s): val(s) for s in xs}\<close>: entries are
  inserted in order, a repeated key keeps its place and takes the later value.
\<close>

definition dict_comprehension :: "('a \<Rightarrow> 'k) \<Rightarrow> ('a \<Rightarrow> 'v) \<Rightarrow> 'a list \<Rightarrow> ('k \<times> 'v) list" where
  "dict_comprehension key val xs = foldl (\<lambda>d s. AList.update (key s) (val s) d) [] xs"

text \<open>
  \<^verbatim>\<open>heapq.nlargest(n, xs, key)\<close> is documented as equivalent to
  \<^verbatim>\<open>sorted(xs, key=key, reverse=True)[:n]\<close>: a stable descending sort, so
  equal keys keep their order of appearance; a count below one selects nothing.
\<close>

definition nlargest :: "int \<Rightarrow> ('a \<Rightarrow> real) \<Rightarrow> 'a list \<Rightarrow> 'a list" where
  "nlargest n key xs = take (nat n) (sort_key (\<lambda>x. - key x) xs)"

definition select_top_signals :: "int \<Rightarrow> real \<Rightarrow> alpha_model \<Rightarrow> alpha_model" where
  "select_top_signals count threshold m =
     (let filtered_signals = filter (\<lambda>s. \<bar>signal s\<bar> \<ge> threshold) (map snd (raw_signals m));
          top_signals = nlargest count raw_weight filtered_signals
      in m\<lparr>signals := dict_comprehension (\<lambda>s. internal_id (pair s)) (\<lambda>s. s) top_signals\<rparr>)"

section \<open>Floating-point arithmetic\<close>














section \<open>Weight differences\<close>



section \<open>The position manager\<close>

text \<open>
  Modelled from the spec: an open position as the portfolio view shows it, with
  its identifier, its instrument and the profit figures the alpha model reads
  (\<^verbatim>\<open>get_total_profit_usd\<close>, \<^verbatim>\<open>get_total_profit_percent\<close>).
\<close>

record trading_position =
  position_pk :: int
  position_pair :: trading_pair
  total_profit_usd :: real
  total_profit_percent :: real

text \<open>
  Modelled from the spec: a trade intent with its target position id, its
  instrument, its notional and the execution sort key
  (\<^verbatim>\<open>get_execution_sort_position\<close>).
\<close>

record trade_execution =
  trade_id :: int
  trade_position_id :: int
  trade_pair :: trading_pair
  planned_value :: real
  execution_sort_position :: int

text \<open>
  The position manager and the trading universe behind it are external
  collaborators: their operations are parameters.  The portfolio they act on
  is an explicit state \<open>'st\<close>; every operation that plans trades returns the
  trades with the new state, or fails.
\<close>

record 'st position_manager =
  get_shorting_pair :: "trading_pair \<Rightarrow> error + trading_pair"
  estimate_asset_quantity :: "'st \<Rightarrow> trading_pair \<Rightarrow> real \<Rightarrow> error + number"
  get_current_position_for_pair :: "'st \<Rightarrow> trading_pair \<Rightarrow> trading_position option"
  close_position :: "'st \<Rightarrow> trading_position \<Rightarrow> error + trade_execution list \<times> 'st"
  open_short ::
    "'st \<Rightarrow> trading_pair \<Rightarrow> real \<Rightarrow> real \<Rightarrow> real option \<Rightarrow> real option \<Rightarrow> real option
       \<Rightarrow> error + trade_execution list \<times> 'st"
  adjust_short ::
    "'st \<Rightarrow> trading_position option \<Rightarrow> real \<Rightarrow> error + trade_execution list \<times> 'st"
  adjust_position ::
    "'st \<Rightarrow> trading_pair \<Rightarrow> real \<Rightarrow> real \<Rightarrow> real \<Rightarrow> real option \<Rightarrow> real option \<Rightarrow> real option
       \<Rightarrow> bool \<Rightarrow> error + trade_execution list \<times> 'st"

section \<open>Target positions\<close>

definition map_pair_for_signal ::
  "'st position_manager \<Rightarrow> trading_pair_signal \<Rightarrow> error + trading_pair" where
  "map_pair_for_signal pm s =
     (let underlying = pair s
      in if signal s > 0 then Inr underlying
         else if signal s < 0 then get_shorting_pair pm underlying
         else Inr underlying)"

text \<open>The body of the loop of \<^verbatim>\<open>calculate_target_positions\<close>, for one signal.\<close>

definition target_position ::
  "'st position_manager \<Rightarrow> 'st \<Rightarrow> real \<Rightarrow> trading_pair_signal \<Rightarrow> error + trading_pair_signal" where
  "target_position pm st equity s =
     (let s1 = s\<lparr>position_target := normalised_weight s * equity\<rparr>
      in case map_pair_for_signal pm s1 of
           Inl e \<Rightarrow> Inl e
         | Inr sp \<Rightarrow>
             let s2 = s1\<lparr>synthetic_pair := Some sp\<rparr>
             in if is_flipping s2 then Inr (s2\<lparr>position_adjust_usd := position_target s2\<rparr>)
                else
                  let s3 = s2\<lparr>position_adjust_usd := position_target s2 - old_value s2\<rparr>
                  in if position_adjust_usd s3 < 0 then
                       (case estimate_asset_quantity pm st (pair s3) (position_adjust_usd s3) of
                          Inl e \<Rightarrow> Inl e
                        | Inr (PyFloat q) \<Rightarrow> Inr (s3\<lparr>position_adjust_quantity := q\<rparr>)
                        | Inr _ \<Rightarrow> Inl AssertionError)
                     else Inr s3)"

fun target_positions_loop ::
  "'st position_manager \<Rightarrow> 'st \<Rightarrow> real \<Rightarrow> (int \<times> trading_pair_signal) list
     \<Rightarrow> error + (int \<times> trading_pair_signal) list" where
  "target_positions_loop pm st equity [] = Inr []"
| "target_positions_loop pm st equity ((k, s) # rest) =
     (case target_position pm st equity s of
        Inl e \<Rightarrow> Inl e
      | Inr s' \<Rightarrow>
          (case target_positions_loop pm st equity rest of
             Inl e \<Rightarrow> Inl e
           | Inr rest' \<Rightarrow> Inr ((k, s') # rest')))"

definition calculate_target_positions ::
  "'st position_manager \<Rightarrow> 'st \<Rightarrow> real \<Rightarrow> alpha_model \<Rightarrow> error + alpha_model" where
  "calculate_target_positions pm st equity m =
     (case target_positions_loop pm st equity (signals m) of
        Inl e \<Rightarrow> Inl e
      | Inr sigs \<Rightarrow> Inr (m\<lparr>investable_equity := Some equity, signals := sigs\<rparr>))"

section \<open>Rebalance trade generation\<close>

text \<open>
  The close of the old position when a signal flips
  (\<^verbatim>\<open>if signal.is_flipping(): ...\<close> in the rebalance branch).  The log line
  at its head evaluates \<^verbatim>\<open>signal.get_flip_label()\<close>.
\<close>

definition close_when_flipping ::
  "'st position_manager \<Rightarrow> 'st \<Rightarrow> trading_pair_signal \<Rightarrow> error + trade_execution list \<times> 'st" where
  "close_when_flipping pm st s =
     (if is_flipping s then
        (case get_flip_label s of
           Inl e \<Rightarrow> Inl e
         | Inr label \<Rightarrow>
             (case old_pair s of
                None \<Rightarrow> Inr ([], st)
              | Some op \<Rightarrow>
                  (case get_current_position_for_pair pm st op of
                     None \<Rightarrow> Inr ([], st)
                   | Some old_position \<Rightarrow> close_position pm st old_position)))
      else Inr ([], st))"

text \<open>
  The short, spot and leveraged-long cases of the rebalance branch, after the
  close of a flipped position.  The message of the \<^verbatim>\<open>NotImplementedError\<close>
  evaluates \<^verbatim>\<open>signal.get_flip_label()\<close> before the error is raised.
\<close>

definition open_or_adjust ::
  "'st position_manager \<Rightarrow> 'st \<Rightarrow> trading_pair_signal \<Rightarrow> trading_pair
     \<Rightarrow> trading_position option \<Rightarrow> error + trade_execution list \<times> 'st" where
  "open_or_adjust pm st s synthetic current_position =
     (if signal s < 0 then
        (case leverage s of
           Some (PyFloat lev) \<Rightarrow>
             if is_flipping s \<or> is_new s then
               open_short pm st (pair s) (position_target s) lev
                 (take_profit s) (stop_loss s) (trailing_stop_loss s)
             else adjust_short pm st current_position (position_target s)
         | _ \<Rightarrow> Inl AssertionError)
      else if leverage s = None then
        adjust_position pm st synthetic (position_adjust_usd s) (position_adjust_quantity s)
          (normalised_weight s) (stop_loss s) (take_profit s) (trailing_stop_loss s)
          override_stop_loss
      else
        (case get_flip_label s of
           Inl e \<Rightarrow> Inl e
         | Inr label \<Rightarrow> Inl NotImplementedError))"

text \<open>
  The record keeping at the head of the loop body: the open position of the
  old pair, if any, and its profit before any trade of this cycle.
\<close>

definition current_position_for ::
  "'st position_manager \<Rightarrow> 'st \<Rightarrow> trading_pair_signal \<Rightarrow> trading_position option" where
  "current_position_for pm st s =
     (case old_pair s of
        None \<Rightarrow> None
      | Some op \<Rightarrow> get_current_position_for_pair pm st op)"

definition record_profit ::
  "trading_pair_signal \<Rightarrow> trading_position option \<Rightarrow> trading_pair_signal" where
  "record_profit s current_position =
     (case old_pair s of
        None \<Rightarrow> s
      | Some op \<Rightarrow>
          (case current_position of
             Some p \<Rightarrow>
               s\<lparr>profit_before_trades := total_profit_usd p,
                  profit_before_trades_pct := total_profit_percent p\<rparr>
           | None \<Rightarrow> s\<lparr>profit_before_trades := 0\<rparr>))"

text \<open>
  The body of the loop of \<^verbatim>\<open>generate_rebalance_trades_and_triggers\<close>, for one
  signal: the updated signal, the trades of this signal
  (\<^verbatim>\<open>position_rebalance_trades\<close>) and the portfolio afterwards.  The log line
  before the threshold test reads \<^verbatim>\<open>synthetic.base.token_symbol\<close> and so fails
  on a signal without a synthetic pair.
\<close>

definition rebalance_signal ::
  "'st position_manager \<Rightarrow> real \<Rightarrow> real \<Rightarrow> 'st \<Rightarrow> trading_pair_signal
     \<Rightarrow> error + trading_pair_signal \<times> trade_execution list \<times> 'st" where
  "rebalance_signal pm epsilon min_trade_threshold st s0 =
     (let dollar_diff = position_adjust_usd s0;
          current_position = current_position_for pm st s0;
          s = record_profit s0 current_position
      in case synthetic_pair s of
           None \<Rightarrow> Inl AttributeError
         | Some synthetic \<Rightarrow>
             if \<bar>dollar_diff\<bar> < min_trade_threshold \<and> \<not> is_flipping s then
               Inr (s\<lparr>position_adjust_ignored := True\<rparr>, [], st)
             else if normalised_weight s < epsilon then
               (case current_position of
                  None \<Rightarrow> Inr (s, [], st)
                | Some p \<Rightarrow>
                    (case close_position pm st p of
                       Inl e \<Rightarrow> Inl e
                     | Inr (ts, st') \<Rightarrow> Inr (s, ts, st')))
             else
               (case close_when_flipping pm st s of
                  Inl e \<Rightarrow> Inl e
                | Inr (closing, st1) \<Rightarrow>
                    (case open_or_adjust pm st1 s synthetic current_position of
                       Inl e \<Rightarrow> Inl e
                     | Inr (opening, st2) \<Rightarrow>
                         (case closing @ opening of
                            [] \<Rightarrow> Inl AssertionError
                          | last_trade # _ \<Rightarrow>
                              if trade_position_id last_trade = 0 then Inl AssertionError
                              else
                                Inr (s\<lparr>position_id := Some (trade_position_id last_trade)\<rparr>,
                                     closing @ opening, st2)))))"

fun rebalance_loop ::
  "'st position_manager \<Rightarrow> real \<Rightarrow> real \<Rightarrow> 'st \<Rightarrow> (int \<times> trading_pair_signal) list
     \<Rightarrow> error + (int \<times> trading_pair_signal) list \<times> trade_execution list \<times> 'st" where
  "rebalance_loop pm epsilon thr st [] = Inr ([], [], st)"
| "rebalance_loop pm epsilon thr st ((k, s) # rest) =
     (case rebalance_signal pm epsilon thr st s of
        Inl e \<Rightarrow> Inl e
      | Inr (s', ts, st') \<Rightarrow>
          (case rebalance_loop pm epsilon thr st' rest of
             Inl e \<Rightarrow> Inl e
           | Inr (rest', ts', st'') \<Rightarrow> Inr ((k, s') # rest', ts @ ts', st'')))"

text \<open>
  The result is the sorted trade list, the model with its signals updated in
  place, and the portfolio after all planned trades.  Python's \<^verbatim>\<open>list.sort\<close>
  is stable, as \<^const>\<open>sort_key\<close> is.
\<close>

definition generate_rebalance_trades_and_triggers ::
  "'st position_manager \<Rightarrow> real \<Rightarrow> bool \<Rightarrow> 'st \<Rightarrow> alpha_model
     \<Rightarrow> error + trade_execution list \<times> alpha_model \<times> 'st" where
  "generate_rebalance_trades_and_triggers pm min_trade_threshold use_spot_for_long st m =
     (if \<not> use_spot_for_long then Inl AssertionError
      else case rebalance_loop pm (close_position_weight_epsilon m) min_trade_threshold st
                  (signals m) of
             Inl e \<Rightarrow> Inl e
           | Inr (sigs, trades, st') \<Rightarrow>
               Inr (sort_key execution_sort_position trades, m\<lparr>signals := sigs\<rparr>, st'))"

section \<open>A concrete position manager for worked examples\<close>

text \<open>
  The worked examples run the model on a small portfolio: the portfolio state
  is the list of open positions, every planning operation returns one trade and
  leaves the open positions as they are (trades are planned, not executed).
\<close>

definition pair_A :: trading_pair where
  "pair_A = \<lparr>internal_id = 1, kind = spot_market\<rparr>"

definition pair_B :: trading_pair where
  "pair_B = \<lparr>internal_id = 2, kind = spot_market\<rparr>"

definition pair_C :: trading_pair where
  "pair_C = \<lparr>internal_id = 3, kind = spot_market\<rparr>"

definition short_of :: "trading_pair \<Rightarrow> trading_pair" where
  "short_of p = \<lparr>internal_id = internal_id p + 1000, kind = lending_short\<rparr>"

definition position_A :: trading_position where
  "position_A =
     \<lparr>position_pk = 7, position_pair = pair_A, total_profit_usd = 12,
      total_profit_percent = 2 / 100\<rparr>"

definition planned_trade :: "int \<Rightarrow> int \<Rightarrow> trading_pair \<Rightarrow> real \<Rightarrow> int \<Rightarrow> trade_execution" where
  "planned_trade tid pid p v k =
     \<lparr>trade_id = tid, trade_position_id = pid, trade_pair = p, planned_value = v,
      execution_sort_position = k\<rparr>"

definition example_pm :: "trading_position list position_manager" where
  "example_pm =
     \<lparr> get_shorting_pair = (\<lambda>p. Inr (short_of p)),
       estimate_asset_quantity = (\<lambda>st p usd. Inr (PyFloat (usd / 2))),
       get_current_position_for_pair = (\<lambda>st p. find (\<lambda>q. position_pair q = p) st),
       close_position =
         (\<lambda>st q. Inr ([planned_trade 1 (position_pk q) (position_pair q) 0 (- 1)], st)),
       open_short =
         (\<lambda>st p v lev tp sl tsl. Inr ([planned_trade 2 (100 + internal_id p) (short_of p) v 2], st)),
       adjust_short =
         (\<lambda>st q v. case q of
                      None \<Rightarrow> Inl UpstreamFailure
                    | Some q \<Rightarrow> Inr ([planned_trade 3 (position_pk q) (position_pair q) v 3], st)),
       adjust_position =
         (\<lambda>st p d q w sl tp tsl ovr.
            Inr ([planned_trade 4
                    (case find (\<lambda>q. position_pair q = p) st of
                       None \<Rightarrow> 100 + internal_id p
                     | Some q \<Rightarrow> position_pk q)
                    p d (if d < 0 then 0 else 4)], st)) \<rparr>"

text \<open>
  A signal as it stands after target computation: the constructor's defaults
  with the weights, the old holding, the target and the delta filled in.
\<close>

definition computed_signal ::
  "trading_pair \<Rightarrow> real \<Rightarrow> number option \<Rightarrow> real \<Rightarrow> real \<Rightarrow> real \<Rightarrow> trading_pair option
     \<Rightarrow> real \<Rightarrow> real \<Rightarrow> trading_pair \<Rightarrow> trading_pair_signal" where
  "computed_signal p a lev w ow ov op target adjust syn =
     (TradingPairSignal p a None None None lev)
       \<lparr>normalised_weight := w, old_weight := ow, old_value := ov, old_pair := op,
        position_target := target, position_adjust_usd := adjust, synthetic_pair := Some syn\<rparr>"

definition model_of :: "(int \<times> trading_pair_signal) list \<Rightarrow> alpha_model" where
  "model_of sigs = (AlphaModel None)\<lparr>signals := sigs, investable_equity := Some 1000\<rparr>"

text \<open>Dust: weight 0.003 on a held asset, with a delta of two dollars.\<close>

definition dust_signal_small :: trading_pair_signal where
  "dust_signal_small =
     computed_signal pair_A 1 None (3 / 1000) (5 / 1000) 5 (Some pair_A) 3 (- 2) pair_A"

text \<open>Dust: weight 0.003 on a held asset worth 600 dollars.\<close>

definition dust_signal_large :: trading_pair_signal where
  "dust_signal_large =
     computed_signal pair_A 1 None (3 / 1000) (6 / 10) 600 (Some pair_A) 3 (- 597) pair_A"

text \<open>A delta of five dollars against a threshold of ten, no flip.\<close>

definition noise_signal :: trading_pair_signal where
  "noise_signal =
     computed_signal pair_A 1 None (1 / 2) (495 / 1000) 495 (Some pair_A) 500 5 pair_A"

text \<open>
  The flip of the spec's scenario: asset A was held spot at weight 0.6
  (600 dollars); the new signal is \<open>-0.8\<close> with leverage 3.
\<close>

definition flip_signal :: trading_pair_signal where
  "flip_signal =
     computed_signal pair_A (- 8 / 10) (Some (PyFloat 3)) 1 (6 / 10) 600 (Some pair_A)
       1000 1000 (short_of pair_A)"








definition leveraged_long :: trading_pair_signal where
  "leveraged_long =
     computed_signal pair_B 1 (Some (PyFloat 2)) 1 0 0 None 1000 1000 pair_B"

text \<open>
  A selected signal before target computation: weights and old holding set,
  target and delta still at their defaults.
\<close>

definition selected_signal ::
  "trading_pair \<Rightarrow> real \<Rightarrow> number option \<Rightarrow> real \<Rightarrow> real \<Rightarrow> real \<Rightarrow> real \<Rightarrow> trading_pair option
     \<Rightarrow> trading_pair_signal" where
  "selected_signal p a lev rw w ow ov op =
     (TradingPairSignal p a None None None lev)
       \<lparr>raw_weight := rw, normalised_weight := w, old_weight := ow, old_value := ov,
        old_pair := op\<rparr>"

text \<open>
  Two selected signals at weight one half each: asset A flips from spot
  (600 dollars) to short, asset B stays long and shrinks from 700 dollars.
\<close>

definition selected_model :: alpha_model where
  "selected_model =
     model_of
       [(1, selected_signal pair_A (- 8 / 10) (Some (PyFloat 3)) (1 / 2) (1 / 2) (6 / 10) 600
              (Some pair_A)),
        (2, selected_signal pair_B 1 None (1 / 2) (1 / 2) (7 / 10) 700 (Some pair_B))]"




text \<open>
  Three raw signals with raw weights 0.2, 0.5 and 0.3; the third one is weak
  (signal 0.001).
\<close>

definition raw_model :: alpha_model where
  "raw_model =
     (AlphaModel None)
       \<lparr>raw_signals :=
          [(1, selected_signal pair_A 1 None (2 / 10) 0 0 0 None),
           (2, selected_signal pair_B (- 1 / 2) (Some (PyFloat 2)) (5 / 10) 0 0 0 None),
           (3, selected_signal pair_C (1 / 1000) None (3 / 10) 0 0 0 None)]\<rparr>"

section \<open>Flip detection\<close>

text \<open>
  Claim C4.  \<^const>\<open>is_flipping\<close> is true exactly when the normalised weight is
  non-zero, an old pair exists, and the old pair's type is opposite to the sign
  of the new signal: a long or spot pair against a negative signal, a short pair
  against a positive signal.  A signal that closes to flat (normalised weight
  zero) is never flipping, whatever its other fields hold.
\<close>

theorem is_flipping_iff:
  "is_flipping s =
     (normalised_weight s \<noteq> 0 \<and>
      (\<exists>op. old_pair s = Some op \<and>
            ((signal s < 0 \<and> (is_long op \<or> is_spot op)) \<or> (signal s > 0 \<and> is_short op))))
   \<and> is_flipping (s\<lparr>normalised_weight := 0\<rparr>) = False"
  by (cases "old_pair s") (auto simp: is_flipping_def)

section \<open>Facts about the loop\<close>

lemma is_flipping_profit [simp]:
  "is_flipping (s\<lparr>profit_before_trades := a\<rparr>) = is_flipping s"
  "is_flipping (s\<lparr>profit_before_trades_pct := b\<rparr>) = is_flipping s"
  by (simp_all add: is_flipping_def split: option.splits)

lemma get_flip_label_update [simp]:
  "get_flip_label (s\<lparr>profit_before_trades := a\<rparr>) = get_flip_label s"
  "get_flip_label (s\<lparr>profit_before_trades_pct := b\<rparr>) = get_flip_label s"
  by (simp_all add: get_flip_label_def)

lemma close_when_flipping_update [simp]:
  "close_when_flipping pm st (s\<lparr>profit_before_trades := a\<rparr>) = close_when_flipping pm st s"
  "close_when_flipping pm st (s\<lparr>profit_before_trades_pct := b\<rparr>) = close_when_flipping pm st s"
  by (simp_all add: close_when_flipping_def split: sum.splits)

lemma open_or_adjust_update [simp]:
  "open_or_adjust pm st (s\<lparr>profit_before_trades := a\<rparr>) = open_or_adjust pm st s"
  "open_or_adjust pm st (s\<lparr>profit_before_trades_pct := b\<rparr>) = open_or_adjust pm st s"
  by (auto simp: open_or_adjust_def is_new_def fun_eq_iff
        split: option.splits number.splits sum.splits)

lemma record_profit_fields [simp]:
  "synthetic_pair (record_profit s c) = synthetic_pair s"
  "normalised_weight (record_profit s c) = normalised_weight s"
  "position_id (record_profit s c) = position_id s"
  "is_flipping (record_profit s c) = is_flipping s"
  "close_when_flipping pm st (record_profit s c) = close_when_flipping pm st s"
  "open_or_adjust pm st (record_profit s c) = open_or_adjust pm st s"
  by (cases "old_pair s"; cases c; simp add: record_profit_def)+

lemma rebalance_loop_append:
  "rebalance_loop pm e t st (xs @ ys) =
     (case rebalance_loop pm e t st xs of
        Inl err \<Rightarrow> Inl err
      | Inr (xs', ts, st1) \<Rightarrow>
          (case rebalance_loop pm e t st1 ys of
             Inl err \<Rightarrow> Inl err
           | Inr (ys', ts', st2) \<Rightarrow> Inr (xs' @ ys', ts @ ts', st2)))"
  by (induction xs arbitrary: st) (auto split: sum.splits prod.splits)

lemma rebalance_loop_length:
  "rebalance_loop pm e t st xs = Inr (xs', ts, st') \<Longrightarrow> length xs' = length xs"
  by (induction xs arbitrary: st xs' ts st') (auto split: sum.splits prod.splits)

lemma rebalance_loop_step:
  assumes loop: "rebalance_loop pm e t st (pre @ (k, s) # post) = Inr (sigs, trades, st')"
    and pre: "rebalance_loop pm e t st pre = Inr (pre', tp, sa)"
  shows "\<exists>s' ts sb post' tq.
           rebalance_signal pm e t sa s = Inr (s', ts, sb) \<and>
           rebalance_loop pm e t sb post = Inr (post', tq, st') \<and>
           sigs = pre' @ (k, s') # post' \<and> trades = tp @ ts @ tq"
  using loop pre
  by (auto simp: rebalance_loop_append split: sum.splits prod.splits)

lemma rebalance_loop_fails:
  assumes "\<And>sa. \<exists>err. rebalance_signal pm e t sa s = Inl err"
    and "(k, s) \<in> set xs"
  shows "\<exists>err. rebalance_loop pm e t st xs = Inl err"
  using assms(2)
proof (induction xs arbitrary: st)
  case Nil
  then show ?case by simp
next
  case (Cons x xs)
  obtain k' s' where x: "x = (k', s')" by (cases x)
  show ?case
  proof (cases "rebalance_signal pm e t st s'")
    case (Inl a)
    then show ?thesis by (simp add: x)
  next
    case (Inr r)
    obtain s'' ts sb where r: "r = (s'', ts, sb)" by (cases r)
    show ?thesis
    proof (cases "(k, s) = x")
      case True
      then show ?thesis using assms(1)[of st] Inr x by auto
    next
      case False
      then have "(k, s) \<in> set xs" using Cons.prems by auto
      from Cons.IH[OF this, of sb] obtain err where "rebalance_loop pm e t sb xs = Inl err" by blast
      then show ?thesis using Inr r x by simp
    qed
  qed
qed


lemma rebalance_loop_prefix:
  assumes "rebalance_loop pm e t st xs = Inr (xs', trades, st')"
  shows "\<exists>pre' tp sa. rebalance_loop pm e t st (take i xs) = Inr (pre', tp, sa)"
proof -
  have "rebalance_loop pm e t st (take i xs @ drop i xs) = Inr (xs', trades, st')"
    using assms by simp
  then show ?thesis
    unfolding rebalance_loop_append by (auto split: sum.splits prod.splits)
qed

lemma rebalance_loop_at:
  assumes loop: "rebalance_loop pm e t st xs = Inr (xs', trades, st')"
    and i: "i < length xs" and at: "xs ! i = (k, s)"
    and pre: "rebalance_loop pm e t st (take i xs) = Inr (pre', tp, sa)"
  shows "\<exists>s' ts sb. rebalance_signal pm e t sa s = Inr (s', ts, sb) \<and>
           length xs' = length xs \<and> xs' ! i = (k, s') \<and> set ts \<subseteq> set trades"
proof -
  have xs: "xs = take i xs @ (k, s) # drop (Suc i) xs"
    using i at by (metis id_take_nth_drop)
  have "rebalance_loop pm e t st (take i xs @ (k, s) # drop (Suc i) xs) = Inr (xs', trades, st')"
    using loop xs by simp
  from rebalance_loop_step[OF this pre]
  obtain s' ts sb post' tq where
    body: "rebalance_signal pm e t sa s = Inr (s', ts, sb)" and
    sigs: "xs' = pre' @ (k, s') # post'" and tr: "trades = tp @ ts @ tq"
    by blast
  have "length pre' = i"
    using rebalance_loop_length[OF pre] i by simp
  then have "xs' ! i = (k, s')" using sigs by (simp add: nth_append)
  moreover have "length xs' = length xs" using rebalance_loop_length[OF loop] .
  ultimately show ?thesis using body tr by auto
qed

lemma generate_loop:
  assumes "generate_rebalance_trades_and_triggers pm thr use st m = Inr (trades, m', st')"
  shows "\<exists>sigs tr.
           rebalance_loop pm (close_position_weight_epsilon m) thr st (signals m) = Inr (sigs, tr, st') \<and>
           m' = m\<lparr>signals := sigs\<rparr> \<and> trades = sort_key execution_sort_position tr"
  using assms
  by (auto simp: generate_rebalance_trades_and_triggers_def split: if_splits sum.splits prod.splits)

lemma generate_at:
  assumes gen: "generate_rebalance_trades_and_triggers pm thr use st m = Inr (trades, m', st')"
    and i: "i < length (signals m)" and at: "signals m ! i = (k, s)"
    and pre: "rebalance_loop pm (close_position_weight_epsilon m) thr st (take i (signals m)) =
                Inr (pre', tp, sa)"
  shows "\<exists>s' ts sb. rebalance_signal pm (close_position_weight_epsilon m) thr sa s = Inr (s', ts, sb) \<and>
           length (signals m') = length (signals m) \<and> signals m' ! i = (k, s') \<and>
           set ts \<subseteq> set trades"
proof -
  from generate_loop[OF gen] obtain sigs tr where
    loop: "rebalance_loop pm (close_position_weight_epsilon m) thr st (signals m) = Inr (sigs, tr, st')"
    and m': "m' = m\<lparr>signals := sigs\<rparr>" and trades: "trades = sort_key execution_sort_position tr"
    by blast
  from rebalance_loop_at[OF loop i at pre] show ?thesis
    using m' trades by auto
qed

lemma generate_prefix:
  assumes gen: "generate_rebalance_trades_and_triggers pm thr use st m = Inr (trades, m', st')"
  shows "\<exists>pre' tp sa. rebalance_loop pm (close_position_weight_epsilon m) thr st (take i (signals m)) =
                Inr (pre', tp, sa)"
proof -
  from generate_loop[OF gen] obtain sigs tr where
    loop: "rebalance_loop pm (close_position_weight_epsilon m) thr st (signals m) = Inr (sigs, tr, st')"
    by blast
  from rebalance_loop_prefix[OF loop] show ?thesis .
qed

section \<open>Facts about the loop body\<close>

lemma rebalance_signal_synthetic:
  "rebalance_signal pm e t sa s = Inr r \<Longrightarrow> synthetic_pair s \<noteq> None"
  by (cases "synthetic_pair s") (simp_all add: rebalance_signal_def Let_def)

lemma rebalance_signal_ignored:
  assumes "\<bar>position_adjust_usd s\<bar> < t" "\<not> is_flipping s" "synthetic_pair s = Some synthetic"
  shows "rebalance_signal pm e t sa s =
           Inr ((record_profit s (current_position_for pm sa s))\<lparr>position_adjust_ignored := True\<rparr>,
                [], sa)"
  using assms by (simp add: rebalance_signal_def Let_def)

lemma rebalance_signal_dust:
  assumes big: "t \<le> \<bar>position_adjust_usd s\<bar> \<or> is_flipping s"
    and dust: "normalised_weight s < e"
    and syn: "synthetic_pair s = Some synthetic"
  shows "rebalance_signal pm e t sa s =
           (case current_position_for pm sa s of
              None \<Rightarrow> Inr (record_profit s None, [], sa)
            | Some p \<Rightarrow>
                (case close_position pm sa p of
                   Inl err \<Rightarrow> Inl err
                 | Inr (ts, sb) \<Rightarrow> Inr (record_profit s (Some p), ts, sb)))"
proof -
  have 1: "(\<bar>position_adjust_usd s\<bar> < t \<and> \<not> is_flipping s) = False" using big by auto
  show ?thesis
  proof (cases "current_position_for pm sa s")
    case None
    then show ?thesis using dust syn by (simp add: rebalance_signal_def Let_def 1)
  next
    case (Some p)
    then show ?thesis using dust syn
      by (cases "close_position pm sa p") (simp_all add: rebalance_signal_def Let_def 1)
  qed
qed

lemma rebalance_signal_rebalance:
  assumes big: "t \<le> \<bar>position_adjust_usd s\<bar> \<or> is_flipping s"
    and nondust: "e \<le> normalised_weight s"
    and syn: "synthetic_pair s = Some synthetic"
  shows "rebalance_signal pm e t sa s =
           (case close_when_flipping pm sa s of
              Inl err \<Rightarrow> Inl err
            | Inr (closing, st1) \<Rightarrow>
                (case open_or_adjust pm st1 s synthetic (current_position_for pm sa s) of
                   Inl err \<Rightarrow> Inl err
                 | Inr (opening, st2) \<Rightarrow>
                     (case closing @ opening of
                        [] \<Rightarrow> Inl AssertionError
                      | last_trade # _ \<Rightarrow>
                          if trade_position_id last_trade = 0 then Inl AssertionError
                          else
                            Inr ((record_profit s (current_position_for pm sa s))
                                   \<lparr>position_id := Some (trade_position_id last_trade)\<rparr>,
                                 closing @ opening, st2))))"
proof -
  have 1: "(\<bar>position_adjust_usd s\<bar> < t \<and> \<not> is_flipping s) = False" using big by auto
  have 2: "(normalised_weight s < e) = False" using nondust by simp
  show ?thesis
  proof (cases "close_when_flipping pm sa s")
    case (Inl err)
    then show ?thesis using syn by (simp add: rebalance_signal_def Let_def 1 2)
  next
    case (Inr r)
    obtain closing st1 where r: "r = (closing, st1)" by (cases r)
    show ?thesis
    proof (cases "open_or_adjust pm st1 s synthetic (current_position_for pm sa s)")
      case (Inl err)
      then show ?thesis using syn Inr r by (simp add: rebalance_signal_def Let_def 1 2)
    next
      case inr: (Inr q)
      obtain opened st2 where q: "q = (opened, st2)" by (cases q)
      show ?thesis using syn Inr r inr q by (simp add: rebalance_signal_def Let_def 1 2)
    qed
  qed
qed

section \<open>Unfolding the worked examples\<close>

lemmas ex_defs = pair_A_def pair_B_def pair_C_def short_of_def position_A_def planned_trade_def
  example_pm_def computed_signal_def model_of_def TradingPairSignal_def AlphaModel_def
  is_flipping_def is_spot_def is_long_def is_short_def is_new_def

section \<open>Adjustments below the trade threshold\<close>

text \<open>
  Claim C3.  When the rebalance succeeds, a signal whose dollar delta is below
  \<open>min_trade_threshold\<close> in absolute value and that is not flipping is still in
  the signals map under its key, with \<open>position_adjust_ignored\<close> set; and in
  whatever portfolio state the loop body meets this signal, it returns no trade
  and leaves the portfolio as it is.
\<close>

theorem small_adjust_ignored:
  assumes gen: "generate_rebalance_trades_and_triggers pm thr use st m = Inr (trades, m', st')"
    and i: "i < length (signals m)" and at: "signals m ! i = (k, s)"
    and small: "\<bar>position_adjust_usd s\<bar> < thr"
    and nf: "\<not> is_flipping s"
  shows "length (signals m') = length (signals m) \<and> fst (signals m' ! i) = k \<and>
         position_adjust_ignored (snd (signals m' ! i)) \<and>
         (\<forall>sa. \<exists>s'. rebalance_signal pm (close_position_weight_epsilon m) thr sa s = Inr (s', [], sa))"
proof -
  from generate_prefix[OF gen, of i] obtain pre' tp sa where
    pre: "rebalance_loop pm (close_position_weight_epsilon m) thr st (take i (signals m)) =
            Inr (pre', tp, sa)" by blast
  from generate_at[OF gen i at pre] obtain s' ts sb where
    body: "rebalance_signal pm (close_position_weight_epsilon m) thr sa s = Inr (s', ts, sb)"
    and len: "length (signals m') = length (signals m)" and nth: "signals m' ! i = (k, s')"
    by blast
  from rebalance_signal_synthetic[OF body] obtain synthetic where
    syn: "synthetic_pair s = Some synthetic" by blast
  have ign: "rebalance_signal pm (close_position_weight_epsilon m) thr sb s =
      Inr ((record_profit s (current_position_for pm sb s))\<lparr>position_adjust_ignored := True\<rparr>, [], sb)"
    for sb
    using rebalance_signal_ignored[OF small nf syn] .
  have "position_adjust_ignored s'" using body ign[of sa] by auto
  moreover have "\<forall>sa. \<exists>s'. rebalance_signal pm (close_position_weight_epsilon m) thr sa s = Inr (s', [], sa)"
    using ign by blast
  ultimately show ?thesis using len nth by simp
qed

theorem small_adjust_ignored_witness:
  "generate_rebalance_trades_and_triggers example_pm 10 True [position_A]
       (model_of [(1, noise_signal)]) =
     Inr ([], model_of [(1, noise_signal\<lparr>profit_before_trades := 12,
                            profit_before_trades_pct := 2 / 100,
                            position_adjust_ignored := True\<rparr>)], [position_A]) \<and>
   \<bar>position_adjust_usd noise_signal\<bar> < 10 \<and> \<not> is_flipping noise_signal \<and>
   position_adjust_ignored
     (snd (signals (model_of [(1, noise_signal\<lparr>profit_before_trades := 12,
                            profit_before_trades_pct := 2 / 100,
                            position_adjust_ignored := True\<rparr>)]) ! 0)) \<and>
   (\<forall>sa. \<exists>s'. rebalance_signal example_pm (5 / 1000) 10 sa noise_signal = Inr (s', [], sa))"
proof -
  have gen: "generate_rebalance_trades_and_triggers example_pm 10 True [position_A]
       (model_of [(1, noise_signal)]) =
     Inr ([], model_of [(1, noise_signal\<lparr>profit_before_trades := 12,
                            profit_before_trades_pct := 2 / 100,
                            position_adjust_ignored := True\<rparr>)], [position_A])"
    by (simp add: generate_rebalance_trades_and_triggers_def rebalance_signal_def
        current_position_for_def record_profit_def noise_signal_def ex_defs)
  have small: "\<bar>position_adjust_usd noise_signal\<bar> < 10"
    by (simp add: noise_signal_def ex_defs)
  have nf: "\<not> is_flipping noise_signal"
    by (simp add: noise_signal_def ex_defs)
  have at: "signals (model_of [(1, noise_signal)]) ! 0 = (1, noise_signal)"
    by (simp add: model_of_def)
  have i: "0 < length (signals (model_of [(1, noise_signal)]))"
    by (simp add: model_of_def)
  have eps: "close_position_weight_epsilon (model_of [(1, noise_signal)]) = 5 / 1000"
    by (simp add: model_of_def AlphaModel_def)
  from small_adjust_ignored[OF gen i at small nf] show ?thesis
    using gen small nf eps by simp
qed

section \<open>Dust positions\<close>

text \<open>
  Claim C1 fails on the code.  The field comment of
  \<open>close_position_weight_epsilon\<close> reads ``if position weight is less than
  0.5% always close it'', but the threshold test comes first in the loop body
  and the dust close sits in its else branch.  With epsilon 0.005, weight
  0.003, an open position for the old pair and a dollar delta of \<open>-2\<close> against
  a threshold of 10, the position manager would plan a close trade for the
  position, yet the rebalance plans no trade at all.
\<close>

theorem dust_below_threshold_not_closed:
  "normalised_weight dust_signal_small <
     close_position_weight_epsilon (model_of [(1, dust_signal_small)]) \<and>
   old_pair dust_signal_small = Some pair_A \<and>
   get_current_position_for_pair example_pm [position_A] pair_A = Some position_A \<and>
   close_position example_pm [position_A] position_A =
     Inr ([planned_trade 1 7 pair_A 0 (- 1)], [position_A]) \<and>
   map_sum id fst
     (generate_rebalance_trades_and_triggers example_pm 10 True [position_A]
        (model_of [(1, dust_signal_small)])) = Inr []"
  by (simp add: generate_rebalance_trades_and_triggers_def rebalance_signal_def
      current_position_for_def record_profit_def dust_signal_small_def ex_defs)

section \<open>Leveraged long\<close>

lemma open_or_adjust_leveraged_long:
  assumes "signal s > 0" "leverage s \<noteq> None"
  shows "open_or_adjust pm st s synthetic cur =
           (case get_flip_label s of Inl e \<Rightarrow> Inl e | Inr label \<Rightarrow> Inl NotImplementedError)"
  using assms by (auto simp: open_or_adjust_def)

lemma rebalance_signal_leveraged_long:
  assumes long: "signal s > 0" and lev: "leverage s \<noteq> None"
    and big: "t \<le> \<bar>position_adjust_usd s\<bar> \<or> is_flipping s"
    and nondust: "e \<le> normalised_weight s"
  shows "\<exists>err. rebalance_signal pm e t sa s = Inl err"
    and "synthetic_pair s = Some synthetic \<Longrightarrow> close_when_flipping pm sa s = Inr (tc, sb) \<Longrightarrow>
         get_flip_label s = Inr label \<Longrightarrow>
         rebalance_signal pm e t sa s = Inl NotImplementedError"
proof -
  show "rebalance_signal pm e t sa s = Inl NotImplementedError"
    if syn: "synthetic_pair s = Some synthetic" and cl: "close_when_flipping pm sa s = Inr (tc, sb)"
      and label: "get_flip_label s = Inr label"
    for synthetic tc sb label
    using rebalance_signal_rebalance[OF big nondust syn, of pm sa] cl label
    by (simp add: open_or_adjust_leveraged_long[OF long lev])
  then show "\<exists>err. rebalance_signal pm e t sa s = Inl err"
  proof (cases "synthetic_pair s")
    case None
    then show ?thesis by (simp add: rebalance_signal_def Let_def)
  next
    case (Some synthetic)
    show ?thesis
    proof (cases "close_when_flipping pm sa s")
      case (Inl err)
      then show ?thesis using rebalance_signal_rebalance[OF big nondust Some, of pm sa] by simp
    next
      case (Inr r)
      obtain tc sb where "r = (tc, sb)" by (cases r)
      then show ?thesis
        using rebalance_signal_rebalance[OF big nondust Some, of pm sa] Inr
        by (cases "get_flip_label s") (simp_all add: open_or_adjust_leveraged_long[OF long lev])
    qed
  qed
qed

text \<open>
  Claim C7.  A signal in the signals map with a positive signal and a leverage
  that is not \<open>None\<close>, past the threshold test (its delta reaches
  \<open>min_trade_threshold\<close> or it flips) and not dust (its weight reaches the
  epsilon), makes the rebalance fail: the loop body fails on it in every
  portfolio state, so no trade list is returned, and the error is
  \<open>NotImplementedError\<close> once the synthetic pair is set, the close of a
  flipped position, if any, went through, and the flip label for the error
  message exists (the old pair is absent, spot or short).  No call of
  \<open>adjust_position\<close> stands in for the leveraged long.  A caller asking for
  leveraged longs with \<open>use_spot_for_long\<close> false is refused at once.
\<close>

theorem leveraged_long_fails:
  assumes mem: "(k, s) \<in> set (signals m)"
    and long: "signal s > 0" and lev: "leverage s \<noteq> None"
    and big: "thr \<le> \<bar>position_adjust_usd s\<bar> \<or> is_flipping s"
    and nondust: "close_position_weight_epsilon m \<le> normalised_weight s"
  shows "(\<exists>err. generate_rebalance_trades_and_triggers pm thr use st m = Inl err) \<and>
         (\<forall>sa. \<exists>err. rebalance_signal pm (close_position_weight_epsilon m) thr sa s = Inl err) \<and>
         (\<forall>sa synthetic tc sb label.
            synthetic_pair s = Some synthetic \<longrightarrow> close_when_flipping pm sa s = Inr (tc, sb) \<longrightarrow>
            get_flip_label s = Inr label \<longrightarrow>
            rebalance_signal pm (close_position_weight_epsilon m) thr sa s = Inl NotImplementedError) \<and>
         generate_rebalance_trades_and_triggers pm thr False st m = Inl AssertionError"
proof -
  have body: "\<exists>err. rebalance_signal pm (close_position_weight_epsilon m) thr sa s = Inl err" for sa
    using rebalance_signal_leveraged_long(1)[OF long lev big nondust] .
  from rebalance_loop_fails[of pm "close_position_weight_epsilon m" thr s k "signals m" st, OF body mem]
  obtain err where
    "rebalance_loop pm (close_position_weight_epsilon m) thr st (signals m) = Inl err" by blast
  then have "\<exists>err. generate_rebalance_trades_and_triggers pm thr use st m = Inl err"
    by (simp add: generate_rebalance_trades_and_triggers_def)
  moreover have "generate_rebalance_trades_and_triggers pm thr False st m = Inl AssertionError"
    by (simp add: generate_rebalance_trades_and_triggers_def)
  moreover have "rebalance_signal pm (close_position_weight_epsilon m) thr sa s = Inl NotImplementedError"
    if "synthetic_pair s = Some synthetic" "close_when_flipping pm sa s = Inr (tc, sb)"
      "get_flip_label s = Inr label"
    for sa synthetic tc sb label
    using rebalance_signal_leveraged_long(2)[OF long lev big nondust that] .
  ultimately show ?thesis
    using body by blast
qed

theorem leveraged_long_fails_witness:
  "(2, leveraged_long) \<in> set (signals (model_of [(1, flip_signal), (2, leveraged_long)])) \<and>
   signal leveraged_long > 0 \<and> leverage leveraged_long = Some (PyFloat 2) \<and>
   10 \<le> \<bar>position_adjust_usd leveraged_long\<bar> \<and>
   close_position_weight_epsilon (model_of [(1, flip_signal), (2, leveraged_long)])
     \<le> normalised_weight leveraged_long \<and>
   generate_rebalance_trades_and_triggers example_pm 10 True [position_A]
     (model_of [(1, flip_signal), (2, leveraged_long)]) = Inl NotImplementedError \<and>
   rebalance_signal example_pm (5 / 1000) 10 [position_A] leveraged_long = Inl NotImplementedError"
proof -
  let ?m = "model_of [(1, flip_signal), (2, leveraged_long)]"
  have mem: "(2, leveraged_long) \<in> set (signals ?m)" by (simp add: model_of_def)
  have long: "signal leveraged_long > 0" by (simp add: leveraged_long_def ex_defs)
  have lev: "leverage leveraged_long = Some (PyFloat 2)" by (simp add: leveraged_long_def ex_defs)
  then have lev': "leverage leveraged_long \<noteq> None" by simp
  have big: "10 \<le> \<bar>position_adjust_usd leveraged_long\<bar>" by (simp add: leveraged_long_def ex_defs)
  have nondust: "close_position_weight_epsilon ?m \<le> normalised_weight leveraged_long"
    by (simp add: leveraged_long_def ex_defs)
  have eps: "close_position_weight_epsilon ?m = 5 / 1000" by (simp add: ex_defs)
  have syn: "synthetic_pair leveraged_long = Some pair_B" by (simp add: leveraged_long_def ex_defs)
  have cl: "close_when_flipping example_pm [position_A] leveraged_long = Inr ([], [position_A])"
    by (simp add: close_when_flipping_def leveraged_long_def ex_defs)
  have label: "get_flip_label leveraged_long = Inr ''none -> spot''"
    by (simp add: get_flip_label_def leveraged_long_def ex_defs)
  have gen: "generate_rebalance_trades_and_triggers example_pm 10 True [position_A] ?m =
      Inl NotImplementedError"
    by (simp add: generate_rebalance_trades_and_triggers_def rebalance_signal_def
        current_position_for_def record_profit_def close_when_flipping_def open_or_adjust_def
        get_flip_label_def
        flip_signal_def leveraged_long_def ex_defs)
  from leveraged_long_fails[OF mem long lev' disjI1[OF big] nondust, of example_pm True "[position_A]"]
  have "rebalance_signal example_pm (close_position_weight_epsilon ?m) 10 [position_A] leveraged_long =
      Inl NotImplementedError"
    using syn cl label by blast
  then show ?thesis using mem long lev big nondust gen eps by simp
qed

section \<open>The rebalance branch\<close>

lemma rebalance_signal_rebalance_Inr:
  assumes big: "t \<le> \<bar>position_adjust_usd s\<bar> \<or> is_flipping s"
    and nondust: "e \<le> normalised_weight s"
    and body: "rebalance_signal pm e t sa s = Inr (s', ts, sb)"
  shows "\<exists>synthetic tc s1 to.
           synthetic_pair s = Some synthetic \<and>
           close_when_flipping pm sa s = Inr (tc, s1) \<and>
           open_or_adjust pm s1 s synthetic (current_position_for pm sa s) = Inr (to, sb) \<and>
           ts = tc @ to \<and> ts \<noteq> [] \<and> position_id s' = Some (trade_position_id (hd ts))"
proof -
  from rebalance_signal_synthetic[OF body] obtain synthetic where
    syn: "synthetic_pair s = Some synthetic" by blast
  note unfold = rebalance_signal_rebalance[OF big nondust syn, of pm sa]
  show ?thesis
  proof (cases "close_when_flipping pm sa s")
    case (Inl err)
    then show ?thesis using unfold body by simp
  next
    case (Inr r)
    obtain tc s1 where r: "r = (tc, s1)" by (cases r)
    show ?thesis
    proof (cases "open_or_adjust pm s1 s synthetic (current_position_for pm sa s)")
      case (Inl err)
      then show ?thesis using unfold body Inr r by simp
    next
      case inr: (Inr q)
      obtain to s2 where q: "q = (to, s2)" by (cases q)
      show ?thesis
      proof (cases "tc @ to")
        case Nil
        then show ?thesis using unfold body Inr r inr q by simp
      next
        case (Cons last_trade rest)
        then show ?thesis using unfold body Inr r inr q syn
          by (auto split: if_splits)
      qed
    qed
  qed
qed

lemma close_when_flipping_flip:
  assumes "is_flipping s" "old_pair s = Some op" "get_current_position_for_pair pm sa op = Some p"
    and "close_when_flipping pm sa s = Inr r"
  shows "close_position pm sa p = Inr r"
  using assms by (cases "get_flip_label s") (simp_all add: close_when_flipping_def)






section \<open>Short signals\<close>


















section \<open>The position of a signal\<close>

text \<open>
  Claim C10.  Let the rebalance succeed, take a signal \<open>s\<close> past the threshold
  test, and let \<open>sa\<close> be the portfolio after the loop has run over the signals
  before it.  If \<open>s\<close> is not dust, the loop body returns at least one trade for
  it and the \<open>position_id\<close> of the signal afterwards is the position id of the
  first of these trades; when \<open>s\<close> flips and the close of the open position of
  its old pair returned at least one trade, that is the position id of the
  first close trade, not of the trade that opens the new position.  If \<open>s\<close>
  is dust, its \<open>position_id\<close> is what it was before.
\<close>

theorem position_id_of_first_trade:
  assumes gen: "generate_rebalance_trades_and_triggers pm thr use st m = Inr (trades, m', st')"
    and i: "i < length (signals m)" and at: "signals m ! i = (k, s)"
    and pre: "rebalance_loop pm (close_position_weight_epsilon m) thr st (take i (signals m)) =
                Inr (pre', tp, sa)"
    and big: "thr \<le> \<bar>position_adjust_usd s\<bar> \<or> is_flipping s"
  shows "\<exists>s' ts sb.
           rebalance_signal pm (close_position_weight_epsilon m) thr sa s = Inr (s', ts, sb) \<and>
           signals m' ! i = (k, s') \<and>
           (if normalised_weight s < close_position_weight_epsilon m
            then position_id s' = position_id s
            else ts \<noteq> [] \<and> position_id s' = Some (trade_position_id (hd ts)) \<and>
                 (is_flipping s \<longrightarrow>
                    (\<forall>op p. old_pair s = Some op \<longrightarrow>
                       get_current_position_for_pair pm sa op = Some p \<longrightarrow>
                       (\<exists>tc sc. close_position pm sa p = Inr (tc, sc) \<and>
                          (tc \<noteq> [] \<longrightarrow> position_id s' = Some (trade_position_id (hd tc)))))))"
proof -
  from generate_at[OF gen i at pre] obtain s' ts sb where
    body: "rebalance_signal pm (close_position_weight_epsilon m) thr sa s = Inr (s', ts, sb)"
    and nth: "signals m' ! i = (k, s')"
    by blast
  from rebalance_signal_synthetic[OF body] obtain synthetic where
    syn: "synthetic_pair s = Some synthetic" by blast
  have "if normalised_weight s < close_position_weight_epsilon m
            then position_id s' = position_id s
            else ts \<noteq> [] \<and> position_id s' = Some (trade_position_id (hd ts)) \<and>
                 (is_flipping s \<longrightarrow>
                    (\<forall>op p. old_pair s = Some op \<longrightarrow>
                       get_current_position_for_pair pm sa op = Some p \<longrightarrow>
                       (\<exists>tc sc. close_position pm sa p = Inr (tc, sc) \<and>
                          (tc \<noteq> [] \<longrightarrow> position_id s' = Some (trade_position_id (hd tc))))))"
  proof (cases "normalised_weight s < close_position_weight_epsilon m")
    case True
    have "position_id s' = position_id s"
    proof (cases "current_position_for pm sa s")
      case None
      then show ?thesis using rebalance_signal_dust[OF big True syn, of pm sa] body by auto
    next
      case (Some p)
      then show ?thesis using rebalance_signal_dust[OF big True syn, of pm sa] body
        by (cases "close_position pm sa p") auto
    qed
    then show ?thesis using True by simp
  next
    case False
    then have nondust: "close_position_weight_epsilon m \<le> normalised_weight s" by simp
    from rebalance_signal_rebalance_Inr[OF big nondust body] obtain synthetic tc s1 to where
      cl: "close_when_flipping pm sa s = Inr (tc, s1)" and
      ts: "ts = tc @ to" and ne: "ts \<noteq> []" and
      pid: "position_id s' = Some (trade_position_id (hd ts))"
      by blast
    have "\<exists>tc sc. close_position pm sa p = Inr (tc, sc) \<and>
            (tc \<noteq> [] \<longrightarrow> position_id s' = Some (trade_position_id (hd tc)))"
      if "is_flipping s" "old_pair s = Some op" "get_current_position_for_pair pm sa op = Some p"
      for op p
    proof -
      have "close_position pm sa p = Inr (tc, s1)"
        using close_when_flipping_flip[OF that cl] .
      moreover have "tc \<noteq> [] \<longrightarrow> position_id s' = Some (trade_position_id (hd tc))"
        using pid ts by simp
      ultimately show ?thesis by blast
    qed
    then show ?thesis using False ne pid by simp
  qed
  then show ?thesis using body nth by blast
qed

theorem position_id_of_first_trade_witness:
  "generate_rebalance_trades_and_triggers example_pm 10 True [position_A]
       (model_of [(1, flip_signal)]) =
     Inr ([planned_trade 1 7 pair_A 0 (- 1), planned_trade 2 101 (short_of pair_A) 1000 2],
          model_of [(1, flip_signal\<lparr>profit_before_trades := 12,
                            profit_before_trades_pct := 2 / 100, position_id := Some 7\<rparr>)],
          [position_A]) \<and>
   is_flipping flip_signal \<and>
   \<not> normalised_weight flip_signal < close_position_weight_epsilon (model_of [(1, flip_signal)]) \<and>
   old_pair flip_signal = Some pair_A \<and>
   get_current_position_for_pair example_pm [position_A] pair_A = Some position_A \<and>
   close_position example_pm [position_A] position_A =
     Inr ([planned_trade 1 7 pair_A 0 (- 1)], [position_A]) \<and>
   position_id (snd (signals (model_of [(1, flip_signal\<lparr>profit_before_trades := 12,
                            profit_before_trades_pct := 2 / 100, position_id := Some 7\<rparr>)]) ! 0)) =
     Some (trade_position_id (planned_trade 1 7 pair_A 0 (- 1))) \<and>
   generate_rebalance_trades_and_triggers example_pm 10 True [position_A]
       (model_of [(1, dust_signal_large)]) =
     Inr ([planned_trade 1 7 pair_A 0 (- 1)],
          model_of [(1, dust_signal_large\<lparr>profit_before_trades := 12,
                            profit_before_trades_pct := 2 / 100\<rparr>)], [position_A]) \<and>
   normalised_weight dust_signal_large <
     close_position_weight_epsilon (model_of [(1, dust_signal_large)]) \<and>
   position_id (snd (signals (model_of [(1, dust_signal_large\<lparr>profit_before_trades := 12,
                            profit_before_trades_pct := 2 / 100\<rparr>)]) ! 0)) = None"
proof -
  let ?m = "model_of [(1, flip_signal)]"
  let ?m' = "model_of [(1, flip_signal\<lparr>profit_before_trades := 12,
                            profit_before_trades_pct := 2 / 100, position_id := Some 7\<rparr>)]"
  let ?n = "model_of [(1, dust_signal_large)]"
  let ?n' = "model_of [(1, dust_signal_large\<lparr>profit_before_trades := 12,
                            profit_before_trades_pct := 2 / 100\<rparr>)]"
  have gen: "generate_rebalance_trades_and_triggers example_pm 10 True [position_A] ?m =
     Inr ([planned_trade 1 7 pair_A 0 (- 1), planned_trade 2 101 (short_of pair_A) 1000 2], ?m',
          [position_A])"
    by (simp add: generate_rebalance_trades_and_triggers_def rebalance_signal_def
        current_position_for_def record_profit_def close_when_flipping_def open_or_adjust_def
        get_flip_label_def
        flip_signal_def ex_defs)
  have i: "0 < length (signals ?m)" by (simp add: model_of_def)
  have at: "signals ?m ! 0 = (1, flip_signal)" by (simp add: model_of_def)
  have pre: "rebalance_loop example_pm (close_position_weight_epsilon ?m) 10 [position_A]
               (take 0 (signals ?m)) = Inr ([], [], [position_A])"
    by simp
  have flip: "is_flipping flip_signal" by (simp add: flip_signal_def ex_defs)
  have nondust: "\<not> normalised_weight flip_signal < close_position_weight_epsilon ?m"
    by (simp add: flip_signal_def ex_defs)
  have old: "old_pair flip_signal = Some pair_A"
    by (simp add: flip_signal_def computed_signal_def TradingPairSignal_def)
  have held: "get_current_position_for_pair example_pm [position_A] pair_A = Some position_A"
    by (simp add: ex_defs)
  have close: "close_position example_pm [position_A] position_A =
     Inr ([planned_trade 1 7 pair_A 0 (- 1)], [position_A])"
    by (simp add: ex_defs)
  have gen': "generate_rebalance_trades_and_triggers example_pm 10 True [position_A] ?n =
     Inr ([planned_trade 1 7 pair_A 0 (- 1)], ?n', [position_A])"
    by (simp add: generate_rebalance_trades_and_triggers_def rebalance_signal_def
        current_position_for_def record_profit_def dust_signal_large_def ex_defs)
  have j: "0 < length (signals ?n)" by (simp add: model_of_def)
  have at': "signals ?n ! 0 = (1, dust_signal_large)" by (simp add: model_of_def)
  have pre': "rebalance_loop example_pm (close_position_weight_epsilon ?n) 10 [position_A]
               (take 0 (signals ?n)) = Inr ([], [], [position_A])"
    by simp
  have dust: "normalised_weight dust_signal_large < close_position_weight_epsilon ?n"
    by (simp add: dust_signal_large_def ex_defs)
  have big': "10 \<le> \<bar>position_adjust_usd dust_signal_large\<bar>"
    by (simp add: dust_signal_large_def ex_defs)
  have none: "position_id dust_signal_large = None"
    by (simp add: dust_signal_large_def computed_signal_def TradingPairSignal_def)
  from position_id_of_first_trade[OF gen i at pre disjI2[OF flip]]
  have a: "position_id (snd (signals ?m' ! 0)) =
             Some (trade_position_id (planned_trade 1 7 pair_A 0 (- 1)))"
    using nondust flip old held close by auto
  from position_id_of_first_trade[OF gen' j at' pre' disjI1[OF big']]
  have b: "position_id (snd (signals ?n' ! 0)) = None"
    using dust none by auto
  show ?thesis using gen flip nondust old held close a gen' dust b by simp
qed

section \<open>Signal registration\<close>

text \<open>
  What \<^verbatim>\<open>set_signal\<close> does check for a short signal on a spot pair: a missing
  leverage and a negative float leverage are refused, a positive float leverage
  is stored.
\<close>

lemma set_signal_short_leverage_checks:
  assumes "is_spot p" "alpha < 0"
  shows "set_signal m p alpha sl tp tsl None = Inl AssertionError"
    and "l < 0 \<Longrightarrow> set_signal m p alpha sl tp tsl (Some (PyFloat l)) = Inl AssertionError"
    and "0 < l \<Longrightarrow>
         set_signal m p alpha sl tp tsl (Some (PyFloat l)) =
           Inr (m\<lparr>raw_signals :=
                    AList.update (internal_id p)
                      (TradingPairSignal p alpha sl tp tsl (Some (PyFloat l))) (raw_signals m)\<rparr>)"
  using assms
  by (simp_all add: set_signal_def post_init_def TradingPairSignal_def truthy_def)

text \<open>
  Claim C2 fails on the code at leverage zero.  For a short signal
  \<^verbatim>\<open>set_signal\<close> asserts only that the leverage is not \<open>None\<close>; the positivity
  check of \<^verbatim>\<open>__post_init__\<close> sits under \<^verbatim>\<open>if self.leverage:\<close>, which a zero
  leverage does not pass.  So \<open>alpha = -1\<close> with \<open>leverage = 0.0\<close> on a spot pair
  is accepted and the signal is stored with leverage zero.
\<close>

theorem set_signal_zero_leverage_stored:
  "set_signal (AlphaModel None) pair_A (- 1) None None None (Some (PyFloat 0)) =
     Inr ((AlphaModel None)
            \<lparr>raw_signals := [(1, TradingPairSignal pair_A (- 1) None None None (Some (PyFloat 0)))]\<rparr>)"
  by (simp add: set_signal_def post_init_def TradingPairSignal_def is_spot_def truthy_def
      AlphaModel_def pair_A_def)

section \<open>Target positions and deltas\<close>

lemma target_position_result:
  assumes "target_position pm st equity s = Inr s'"
  shows "position_target s' = normalised_weight s * equity \<and>
         (if is_flipping s then position_adjust_usd s' = position_target s'
          else position_adjust_usd s' = position_target s' - old_value s \<and>
               (position_adjust_usd s' < 0 \<longrightarrow>
                  estimate_asset_quantity pm st (pair s) (position_adjust_usd s') =
                    Inr (PyFloat (position_adjust_quantity s'))))"
  using assms
  by (auto simp: target_position_def Let_def is_flipping_def
           split: sum.splits if_splits number.splits option.splits)

lemma target_positions_loop_result:
  "target_positions_loop pm st equity sigs = Inr sigs' \<Longrightarrow>
   list_all2 (\<lambda>(k, s) (k', s'). k' = k \<and> target_position pm st equity s = Inr s') sigs sigs'"
  by (induction sigs arbitrary: sigs') (auto split: sum.splits)

text \<open>
  Claim C5.  When \<^verbatim>\<open>calculate_target_positions\<close> succeeds, the signals map
  keeps its keys in order and every signal \<open>s\<close> has become a signal \<open>s'\<close> with
  \<open>position_target = normalised_weight * investable_equity\<close>; if \<open>s\<close> is flipping
  then \<open>position_adjust_usd = position_target\<close>, the old value being ignored;
  otherwise \<open>position_adjust_usd = position_target - old_value\<close>, and when that
  delta is negative \<open>position_adjust_quantity\<close> is the float the position
  manager's quantity estimator returned for the pair and the delta.
\<close>

theorem calculate_target_positions_fields:
  assumes "calculate_target_positions pm st equity m = Inr m'"
  shows "list_all2
           (\<lambda>(k, s) (k', s').
              k' = k \<and> position_target s' = normalised_weight s * equity \<and>
              (if is_flipping s then position_adjust_usd s' = position_target s'
               else position_adjust_usd s' = position_target s' - old_value s \<and>
                    (position_adjust_usd s' < 0 \<longrightarrow>
                       estimate_asset_quantity pm st (pair s) (position_adjust_usd s') =
                         Inr (PyFloat (position_adjust_quantity s')))))
           (signals m) (signals m')"
proof -
  from assms obtain sigs where
    loop: "target_positions_loop pm st equity (signals m) = Inr sigs" and
    m': "signals m' = sigs"
    by (auto simp: calculate_target_positions_def split: sum.splits)
  from target_positions_loop_result[OF loop]
  have "list_all2 (\<lambda>(k, s) (k', s'). k' = k \<and> target_position pm st equity s = Inr s')
          (signals m) sigs" .
  then show ?thesis
    unfolding m' by (rule list_all2_mono) (auto dest!: target_position_result)
qed

theorem calculate_target_positions_fields_witness:
  "map_sum id
     (\<lambda>m. map (\<lambda>(k, s). (k, position_target s, position_adjust_usd s, position_adjust_quantity s,
                           synthetic_pair s)) (signals m))
     (calculate_target_positions example_pm [position_A] 1000 selected_model) =
     Inr [(1, 500, 500, 0, Some (short_of pair_A)), (2, 500, - 200, - 100, Some pair_B)] \<and>
   is_flipping (snd (signals selected_model ! 0)) \<and>
   \<not> is_flipping (snd (signals selected_model ! 1)) \<and>
   estimate_asset_quantity example_pm [position_A] pair_B (- 200) = Inr (PyFloat (- 100))"
proof -
  have run: "calculate_target_positions example_pm [position_A] 1000 selected_model =
      Inr (selected_model
             \<lparr>investable_equity := Some 1000,
              signals :=
                [(1, (snd (signals selected_model ! 0))
                       \<lparr>position_target := 500, synthetic_pair := Some (short_of pair_A),
                        position_adjust_usd := 500\<rparr>),
                 (2, (snd (signals selected_model ! 1))
                       \<lparr>position_target := 500, synthetic_pair := Some pair_B,
                        position_adjust_usd := - 200, position_adjust_quantity := - 100\<rparr>)]\<rparr>)"
    by (simp add: calculate_target_positions_def target_position_def map_pair_for_signal_def
        selected_model_def selected_signal_def ex_defs)
  have flips: "is_flipping (snd (signals selected_model ! 0))"
    "\<not> is_flipping (snd (signals selected_model ! 1))"
    by (simp_all add: selected_model_def selected_signal_def ex_defs)
  have est: "estimate_asset_quantity example_pm [position_A] pair_B (- 200) = Inr (PyFloat (- 100))"
    by (simp add: ex_defs)
  from calculate_target_positions_fields[OF run]
  have "list_all2
           (\<lambda>(k, s) (k', s').
              k' = k \<and> position_target s' = normalised_weight s * 1000 \<and>
              (if is_flipping s then position_adjust_usd s' = position_target s'
               else position_adjust_usd s' = position_target s' - old_value s \<and>
                    (position_adjust_usd s' < 0 \<longrightarrow>
                       estimate_asset_quantity example_pm [position_A] (pair s)
                         (position_adjust_usd s') =
                         Inr (PyFloat (position_adjust_quantity s')))))
           (signals selected_model)
           [(1, (snd (signals selected_model ! 0))
                       \<lparr>position_target := 500, synthetic_pair := Some (short_of pair_A),
                        position_adjust_usd := 500\<rparr>),
                 (2, (snd (signals selected_model ! 1))
                       \<lparr>position_target := 500, synthetic_pair := Some pair_B,
                        position_adjust_usd := - 200, position_adjust_quantity := - 100\<rparr>)]"
    by simp
  then show ?thesis using flips est
    by (simp add: run) (simp add: selected_model_def selected_signal_def ex_defs)
qed

section \<open>Dictionaries as association lists\<close>

lemma update_fresh: "k \<notin> fst ` set al \<Longrightarrow> AList.update k v al = al @ [(k, v)]"
  by (induction al) auto

lemma foldl_update_fresh:
  assumes "distinct (map key xs)" "key ` set xs \<inter> fst ` set acc = {}"
  shows "foldl (\<lambda>d s. AList.update (key s) (val s) d) acc xs = acc @ map (\<lambda>s. (key s, val s)) xs"
  using assms
proof (induction xs arbitrary: acc)
  case Nil
  then show ?case by simp
next
  case (Cons x xs)
  have fresh: "key x \<notin> fst ` set acc" using Cons.prems(2) by auto
  have "key ` set xs \<inter> fst ` set (acc @ [(key x, val x)]) = {}"
    using Cons.prems by auto
  with Cons.IH[of "acc @ [(key x, val x)]"] Cons.prems(1) fresh
  show ?case by (simp add: update_fresh)
qed

lemma dict_comprehension_distinct:
  "distinct (map key xs) \<Longrightarrow> dict_comprehension key val xs = map (\<lambda>s. (key s, val s)) xs"
  using foldl_update_fresh[of key xs "[]" val] by (simp add: dict_comprehension_def)



section \<open>Facts about the weight differences\<close>









lemma same_keys_none:
  assumes "map fst old = map fst new" "map_of new i = None"
  shows "map_of old i = None"
proof -
  have "i \<notin> fst ` set new" using assms(2) by (simp add: map_of_eq_None_iff)
  then have "i \<notin> fst ` set old" using assms(1) by (metis set_map)
  then show ?thesis by (simp add: map_of_eq_None_iff)
qed













section \<open>Weight differences\<close>





section \<open>Selection of the top signals\<close>

lemma distinct_map_sort_key:
  "distinct (map f (sort_key g xs)) = distinct (map f xs)"
  by (simp add: distinct_map)

lemma nlargest_distinct:
  assumes "distinct (map f xs)"
  shows "distinct (map f (nlargest n key xs))"
proof -
  have "distinct (map f (sort_key (\<lambda>x. - key x) xs))"
    using assms by (simp only: distinct_map_sort_key)
  then have "distinct (take (nat n) (map f (sort_key (\<lambda>x. - key x) xs)))"
    by (rule distinct_take)
  then show ?thesis by (simp add: nlargest_def take_map)
qed

lemma nlargest_subset: "set (nlargest n key xs) \<subseteq> set xs"
  using set_take_subset[of "nat n" "sort_key (\<lambda>x. - key x) xs"] by (simp add: nlargest_def)

lemma nlargest_length: "length (nlargest n key xs) = min (nat n) (length xs)"
  by (simp add: nlargest_def min.commute)

lemma nlargest_top:
  assumes s: "s \<in> set (nlargest n key xs)" and r: "r \<in> set xs" "r \<notin> set (nlargest n key xs)"
  shows "key r \<le> key s"
proof -
  let ?ys = "sort_key (\<lambda>x. - key x) xs"
  have sorted: "sorted (map (\<lambda>x. - key x) (take (nat n) ?ys @ drop (nat n) ?ys))"
    by simp
  have "r \<in> set (take (nat n) ?ys) \<union> set (drop (nat n) ?ys)"
    using r(1) by (metis append_take_drop_id set_append set_sort)
  then have rd: "r \<in> set (drop (nat n) ?ys)" using r(2) by (simp add: nlargest_def)
  have st: "s \<in> set (take (nat n) ?ys)" using s by (simp add: nlargest_def)
  from sorted have "\<forall>x\<in>set (take (nat n) ?ys). \<forall>y\<in>set (drop (nat n) ?ys). - key x \<le> - key y"
    unfolding map_append sorted_append by auto
  then show ?thesis using st rd by auto
qed

lemma raw_signals_ids:
  assumes "distinct (map fst raw)" "\<forall>(k, s) \<in> set raw. k = internal_id (pair s)"
  shows "distinct (map (\<lambda>s. internal_id (pair s)) (map snd raw))"
proof -
  have eq: "map (\<lambda>s. internal_id (pair s)) (map snd raw) = map fst raw"
    using assms(2) by (induction raw) auto
  show ?thesis unfolding eq using assms(1) .
qed

text \<open>
  \<^verbatim>\<open>set_signal\<close> keeps the raw signals keyed by pair id, with distinct keys.
\<close>

lemma update_entries: "set (AList.update k v al) \<subseteq> insert (k, v) (set al)"
  by (induction al) auto

lemma raw_signals_keyed_by_pair:
  assumes "set_signal m p alpha sl tp tsl lev = Inr m'"
    and "distinct (map fst (raw_signals m))"
    and "\<forall>(k, s) \<in> set (raw_signals m). k = internal_id (pair s)"
  shows "distinct (map fst (raw_signals m')) \<and>
         (\<forall>(k, s) \<in> set (raw_signals m'). k = internal_id (pair s))"
proof (cases "alpha = 0")
  case True
  then have "raw_signals m' = AList.delete (internal_id p) (raw_signals m)"
    using assms(1) by (auto simp: set_signal_def split: if_splits)
  moreover have "distinct (map fst (AList.delete (internal_id p) (raw_signals m)))"
    using assms(2) by (rule distinct_delete)
  moreover have "set (AList.delete (internal_id p) (raw_signals m)) \<subseteq> set (raw_signals m)"
    by (auto simp: AList.delete_eq)
  ultimately show ?thesis using assms(3) by auto
next
  case False
  then obtain s where s: "post_init (TradingPairSignal p alpha sl tp tsl lev) = Inr s"
    and raw: "raw_signals m' = AList.update (internal_id p) s (raw_signals m)"
    using assms(1) by (auto simp: set_signal_def split: if_splits sum.splits)
  have "s = TradingPairSignal p alpha sl tp tsl lev"
    using s by (auto simp: post_init_def split: if_splits option.splits)
  then have "pair s = p" by (simp add: TradingPairSignal_def)
  then show ?thesis
    using assms(2,3) update_entries[of "internal_id p" s "raw_signals m"]
    unfolding raw by (auto simp: distinct_update)
qed

text \<open>
  Claim C8.  Let the raw signals be a dictionary keyed by pair id (distinct
  keys, every signal under the id of its pair), as \<^verbatim>\<open>set_signal\<close> builds it.
  Then \<^verbatim>\<open>select_top_signals\<close> stores as the signals map, again keyed by pair
  id, a selection from the raw signals with \<open>\<bar>signal\<bar> \<ge> threshold\<close> (the
  comparison is inclusive): it holds \<open>count\<close> of them, or all of them when
  they are fewer, and no candidate left out has a higher raw weight than a
  selected one.
\<close>

theorem select_top_signals_spec:
  assumes keys: "distinct (map fst (raw_signals m))"
    and ids: "\<forall>(k, s) \<in> set (raw_signals m). k = internal_id (pair s)"
  shows "signals (select_top_signals count threshold m) =
           map (\<lambda>s. (internal_id (pair s), s))
             (nlargest count raw_weight
                (filter (\<lambda>s. \<bar>signal s\<bar> \<ge> threshold) (map snd (raw_signals m)))) \<and>
         distinct (map fst (signals (select_top_signals count threshold m))) \<and>
         (\<forall>s \<in> snd ` set (signals (select_top_signals count threshold m)).
            s \<in> snd ` set (raw_signals m) \<and> \<bar>signal s\<bar> \<ge> threshold) \<and>
         length (signals (select_top_signals count threshold m)) =
           min (nat count)
             (length (filter (\<lambda>s. \<bar>signal s\<bar> \<ge> threshold) (map snd (raw_signals m)))) \<and>
         (\<forall>s \<in> snd ` set (signals (select_top_signals count threshold m)).
          \<forall>r \<in> snd ` set (raw_signals m).
            \<bar>signal r\<bar> \<ge> threshold \<longrightarrow>
            r \<notin> snd ` set (signals (select_top_signals count threshold m)) \<longrightarrow>
            raw_weight r \<le> raw_weight s)"
proof -
  let ?cand = "filter (\<lambda>s. \<bar>signal s\<bar> \<ge> threshold) (map snd (raw_signals m))"
  let ?top = "nlargest count raw_weight ?cand"
  let ?sel = "signals (select_top_signals count threshold m)"
  have d0: "distinct (map (\<lambda>s. internal_id (pair s)) (map snd (raw_signals m)))"
    using raw_signals_ids[OF keys ids] .
  have d1: "distinct (map (\<lambda>s. internal_id (pair s)) ?cand)"
    using d0 by (rule distinct_map_filter)
  have d2: "distinct (map (\<lambda>s. internal_id (pair s)) ?top)"
    using d1 by (rule nlargest_distinct)
  have sel: "?sel = map (\<lambda>s. (internal_id (pair s), s)) ?top"
    by (simp add: select_top_signals_def Let_def dict_comprehension_distinct[OF d2])
  have vals: "snd ` set ?sel = set ?top"
    unfolding sel by force
  have fsts: "map fst ?sel = map (\<lambda>s. internal_id (pair s)) ?top"
    unfolding sel by simp
  have sub: "set ?top \<subseteq> set ?cand" by (rule nlargest_subset)
  have a: "\<forall>s \<in> set ?top. s \<in> snd ` set (raw_signals m) \<and> \<bar>signal s\<bar> \<ge> threshold"
    using sub by auto
  have b: "length ?sel = min (nat count) (length ?cand)"
    unfolding sel by (simp add: nlargest_length)
  have c: "raw_weight r \<le> raw_weight s"
    if "s \<in> set ?top" "r \<in> snd ` set (raw_signals m)" "\<bar>signal r\<bar> \<ge> threshold" "r \<notin> set ?top"
    for s r
  proof -
    have "r \<in> set ?cand" using that(2,3) by auto
    from nlargest_top[OF that(1) this that(4)] show ?thesis .
  qed
  have d3: "distinct (map fst ?sel)" unfolding fsts using d2 .
  have c': "\<forall>s \<in> set ?top. \<forall>r \<in> snd ` set (raw_signals m).
            \<bar>signal r\<bar> \<ge> threshold \<longrightarrow> r \<notin> set ?top \<longrightarrow> raw_weight r \<le> raw_weight s"
    using c by blast
  show ?thesis
    unfolding vals
    by (intro conjI) (fact sel d3 a b c')+
qed

theorem select_top_signals_spec_witness:
  "distinct (map fst (raw_signals raw_model)) \<and>
   map fst (raw_signals raw_model) =
     map (\<lambda>s. internal_id (pair s)) (map snd (raw_signals raw_model)) \<and>
   signals (select_top_signals 1 (1 / 100) raw_model) = [(2, snd (raw_signals raw_model ! 1))] \<and>
   signals (select_top_signals 2 (1 / 100) raw_model) =
     [(2, snd (raw_signals raw_model ! 1)), (1, snd (raw_signals raw_model ! 0))] \<and>
   signals (select_top_signals 2 (1 / 1000) raw_model) =
     [(2, snd (raw_signals raw_model ! 1)), (3, snd (raw_signals raw_model ! 2))] \<and>
   length (signals (select_top_signals 1 (1 / 100) raw_model)) =
     min (nat 1)
       (length (filter (\<lambda>s. \<bar>signal s\<bar> \<ge> 1 / 100) (map snd (raw_signals raw_model))))"
proof -
  have keys: "distinct (map fst (raw_signals raw_model))"
    by (simp add: raw_model_def)
  have ids: "\<forall>(k, s) \<in> set (raw_signals raw_model). k = internal_id (pair s)"
    by (simp add: raw_model_def selected_signal_def ex_defs)
  have ids': "map fst (raw_signals raw_model) =
     map (\<lambda>s. internal_id (pair s)) (map snd (raw_signals raw_model))"
    by (simp add: raw_model_def selected_signal_def ex_defs)
  have run1: "signals (select_top_signals 1 (1 / 100) raw_model) =
      [(2, snd (raw_signals raw_model ! 1))]"
    by (simp add: select_top_signals_def nlargest_def dict_comprehension_def raw_model_def
        selected_signal_def ex_defs)
  have run2: "signals (select_top_signals 2 (1 / 100) raw_model) =
     [(2, snd (raw_signals raw_model ! 1)), (1, snd (raw_signals raw_model ! 0))]"
    by (simp add: select_top_signals_def nlargest_def dict_comprehension_def raw_model_def
        selected_signal_def ex_defs)
  have run3: "signals (select_top_signals 2 (1 / 1000) raw_model) =
     [(2, snd (raw_signals raw_model ! 1)), (3, snd (raw_signals raw_model ! 2))]"
    by (simp add: select_top_signals_def nlargest_def dict_comprehension_def raw_model_def
        selected_signal_def ex_defs)
  from select_top_signals_spec[OF keys ids, of 1 "1 / 100"]
  have len: "length (signals (select_top_signals 1 (1 / 100) raw_model)) =
     min (nat 1)
       (length (filter (\<lambda>s. \<bar>signal s\<bar> \<ge> 1 / 100) (map snd (raw_signals raw_model))))"
    by blast
  show ?thesis by (intro conjI) (fact keys ids' run1 run2 run3 len)+
qed

end
